theory Spec2Isabelle
  imports Main "HOL-Library.AList"
begin

section \<open>Python values and dictionaries\<close>

text \<open>
  The report generator GUI (\<^verbatim>\<open>gui_genreport.py\<close>) keeps its calculation options in
  nested Python dictionaries: \<^verbatim>\<open>self._calc_opts[calc_type][opt_set_name][key]\<close>.
  The values stored under the keys are integers, floats, booleans, strings and, under
  \<^verbatim>\<open>'remote_opts'\<close>, one more dictionary.

  A float is kept as the decimal literal the source writes (\<^verbatim>\<open>10e-3\<close> is
  \<open>Float_lit 10 (-3)\<close>): the catalog only stores and copies floats, it never computes
  with them.

  A Python \<^verbatim>\<open>dict\<close> keeps its keys in insertion order, and the order is what the name
  selectors show (\<^verbatim>\<open>list(self._calc_opts[calc_type])\<close>), so a dictionary is an association
  list. \<^verbatim>\<open>d[k] = v\<close> is \<open>AList.update k v d\<close>: the value is replaced in place when the
  key is there, and the pair is appended otherwise. \<^verbatim>\<open>del d[k]\<close> is \<open>AList.delete k d\<close>
  once the key is known to be there. A missing key raises \<^verbatim>\<open>KeyError\<close>.
\<close>

datatype py_error = KeyError | ValueError | TypeError | NotImplementedError

datatype pyfloat = Float_lit int int

datatype pyval =
    PInt int
  | PFloat pyfloat
  | PBool bool
  | PStr string
  | PDict "(string \<times> pyval) list"

type_synonym opt_dict = "(string \<times> pyval) list"

type_synonym opt_sets = "(string \<times> opt_dict) list"

type_synonym calc_opts = "(string \<times> opt_sets) list"

text \<open>\<^verbatim>\<open>d[k]\<close> as an expression.\<close>

definition dict_getitem :: "('k \<times> 'v) list \<Rightarrow> 'k \<Rightarrow> py_error + 'v" where
  "dict_getitem d k = (case map_of d k of None \<Rightarrow> Inl KeyError | Some v \<Rightarrow> Inr v)"

text \<open>\<^verbatim>\<open>d.update(u)\<close>: every pair of \<open>u\<close> is assigned in turn.\<close>

definition dict_update :: "('k \<times> 'v) list \<Rightarrow> ('k \<times> 'v) list \<Rightarrow> ('k \<times> 'v) list" where
  "dict_update d u = fold (\<lambda>(k, v). AList.update k v) u d"

text \<open>\<^verbatim>\<open>list(d)\<close>: the keys, in insertion order.\<close>

definition dict_keys :: "('k \<times> 'v) list \<Rightarrow> 'k list" where
  "dict_keys d = map fst d"

section \<open>The seeded catalog: \<^verbatim>\<open>MainWindow._set_default_calc_opt_sets\<close>\<close>

definition all_nonlin_calc_types :: "string list" where
  "all_nonlin_calc_types =
     [''xy_aper'', ''fmap_xy'', ''fmap_px'', ''cmap_xy'', ''cmap_px'', ''tswa'',
      ''nonlin_chrom'', ''mom_aper'']"

text \<open>
  Each block of the source has the shape
  \<^verbatim>\<open>d = self._calc_opts[t] = dict(production={...})\<close>,
  \<^verbatim>\<open>d['test'] = deepcopy(d['production'])\<close>, \<^verbatim>\<open>d['test'].update({...})\<close>.
  \<open>d\<close> is the dictionary stored in the catalog, so the two later statements change the
  catalog's entry. \<open>seed_with_test p u\<close> is that dictionary after the three statements;
  \<^verbatim>\<open>deepcopy\<close> is the identity on values, and \<^verbatim>\<open>d['test']\<close> in the third statement
  reads the key the second has just assigned.
\<close>

definition seed_with_test :: "opt_dict \<Rightarrow> opt_dict \<Rightarrow> opt_sets" where
  "seed_with_test p u =
     (let d = [(''production'', p)];
          d = AList.update ''test'' p d
      in case map_of d ''test'' of
           None \<Rightarrow> d
         | Some t \<Rightarrow> AList.update ''test'' (dict_update t u) d)"

definition xy_aper_production :: opt_dict where
  "xy_aper_production =
     [(''n_turns'', PInt 1024),
      (''abs_xmax'', PFloat (Float_lit 10 (-3))),
      (''abs_ymax'', PFloat (Float_lit 10 (-3))),
      (''ini_ndiv'', PInt 51),
      (''n_lines'', PInt 21),
      (''neg_y_search'', PBool False)]"

definition fmap_xy_production :: opt_dict where
  "fmap_xy_production =
     [(''n_turns'', PInt 1024),
      (''xmin'', PFloat (Float_lit (-10) (-3))),
      (''xmax'', PFloat (Float_lit 10 (-3))),
      (''ymin'', PFloat (Float_lit 0 0)),
      (''ymax'', PFloat (Float_lit 5 (-3))),
      (''nx'', PInt 201),
      (''ny'', PInt 201),
      (''x_offset'', PFloat (Float_lit 1 (-6))),
      (''y_offset'', PFloat (Float_lit 1 (-6))),
      (''delta_offset'', PFloat (Float_lit 0 0))]"

definition fmap_px_production :: opt_dict where
  "fmap_px_production =
     [(''n_turns'', PInt 1024),
      (''delta_min'', PFloat (Float_lit (-5) (-2))),
      (''delta_max'', PFloat (Float_lit 5 (-2))),
      (''xmin'', PFloat (Float_lit (-10) (-3))),
      (''xmax'', PFloat (Float_lit 10 (-3))),
      (''ndelta'', PInt 201),
      (''nx'', PInt 201),
      (''x_offset'', PFloat (Float_lit 1 (-6))),
      (''y_offset'', PFloat (Float_lit 1 (-6))),
      (''delta_offset'', PFloat (Float_lit 0 0))]"

definition tswa_production :: opt_dict where
  "tswa_production =
     [(''n_turns'', PInt 1024),
      (''abs_xmax'', PFloat (Float_lit 5 (-3))),
      (''nx'', PInt 50),
      (''abs_ymax'', PFloat (Float_lit 3 (-3))),
      (''ny'', PInt 50),
      (''x_offset'', PFloat (Float_lit 1 (-6))),
      (''y_offset'', PFloat (Float_lit 1 (-6))),
      (''remote_opts'', PDict [(''partition'', PStr ''short''), (''time'', PStr ''30:00'')])]"

definition nonlin_chrom_production :: opt_dict where
  "nonlin_chrom_production =
     [(''n_turns'', PInt 1024),
      (''delta_min'', PFloat (Float_lit (-3) (-2))),
      (''delta_max'', PFloat (Float_lit 3 (-2))),
      (''ndelta'', PInt 100),
      (''x_offset'', PFloat (Float_lit 1 (-6))),
      (''y_offset'', PFloat (Float_lit 1 (-6))),
      (''delta_offset'', PFloat (Float_lit 0 0)),
      (''remote_opts'', PDict [(''partition'', PStr ''short''), (''time'', PStr ''30:00'')]),
      (''save_fft'', PBool False)]"

definition mom_aper_production :: opt_dict where
  "mom_aper_production =
     [(''n_turns'', PInt 1024),
      (''x_initial'', PFloat (Float_lit 10 (-6))),
      (''y_initial'', PFloat (Float_lit 10 (-6))),
      (''delta_negative_start'', PFloat (Float_lit (-1) (-3))),
      (''delta_negative_limit'', PFloat (Float_lit (-5) (-2))),
      (''delta_positive_start'', PFloat (Float_lit 1 (-3))),
      (''delta_positive_limit'', PFloat (Float_lit 5 (-2))),
      (''init_delta_step_size'', PFloat (Float_lit 5 (-3))),
      (''include_name_pattern'', PStr ''[QSO]*'')]"

text \<open>
  The blocks in the order of the source. \<^verbatim>\<open>self._calc_opts\<close> starts as
  \<^verbatim>\<open>{k: {} for k in self.all_nonlin_calc_types}\<close>, and each block assigns one key of it.
  The blocks of \<^verbatim>\<open>cmap_xy\<close> and \<^verbatim>\<open>cmap_px\<close> read
  \<^verbatim>\<open>self._calc_opts['fmap_xy']['production']\<close>, \<^verbatim>\<open>self._calc_opts['fmap_xy']['test']\<close>
  (and the same of \<^verbatim>\<open>fmap_px\<close>): the values the two blocks above have just stored, which
  nothing has changed since. They copy them and lower \<^verbatim>\<open>n_turns\<close> of the copied test
  set. \<^verbatim>\<open>tswa\<close> and \<^verbatim>\<open>nonlin_chrom\<close> get a production set only.
\<close>

definition fmap_xy_sets :: opt_sets where
  "fmap_xy_sets = seed_with_test fmap_xy_production [(''nx'', PInt 21), (''ny'', PInt 21)]"

definition fmap_px_sets :: opt_sets where
  "fmap_px_sets = seed_with_test fmap_px_production [(''nx'', PInt 21), (''ny'', PInt 21)]"

definition cmap_from :: "opt_dict \<Rightarrow> opt_dict \<Rightarrow> opt_sets" where
  "cmap_from fmap_production fmap_test =
     (let d = [(''production'', fmap_production)];
          d = AList.update ''test'' fmap_test d
      in case map_of d ''test'' of
           None \<Rightarrow> d
         | Some t \<Rightarrow> AList.update ''test'' (dict_update t [(''n_turns'', PInt 128)]) d)"

definition set_default_calc_opt_sets :: calc_opts where
  "set_default_calc_opt_sets =
     (let c = map (\<lambda>k. (k, [])) all_nonlin_calc_types;
          c = AList.update ''xy_aper''
                (seed_with_test xy_aper_production [(''n_turns'', PInt 128)]) c;
          c = AList.update ''fmap_xy'' fmap_xy_sets c;
          c = AList.update ''fmap_px'' fmap_px_sets c;
          c = AList.update ''cmap_xy''
                (cmap_from fmap_xy_production
                   (dict_update fmap_xy_production [(''nx'', PInt 21), (''ny'', PInt 21)])) c;
          c = AList.update ''cmap_px''
                (cmap_from fmap_px_production
                   (dict_update fmap_px_production [(''nx'', PInt 21), (''ny'', PInt 21)])) c;
          c = AList.update ''tswa'' [(''production'', tswa_production)] c;
          c = AList.update ''nonlin_chrom'' [(''production'', nonlin_chrom_production)] c;
          c = AList.update ''mom_aper''
                (seed_with_test mom_aper_production
                   [(''n_turns'', PInt 16), (''include_name_pattern'', PStr ''O*'')]) c
      in c)"

section \<open>Catalog reads and the rename step\<close>

text \<open>
  \<^verbatim>\<open>self._calc_opts[calc_type][opt_set_name]\<close> (line 305) and
  \<^verbatim>\<open>list(self._calc_opts[calc_type])\<close> (lines 347, 360, 370).
\<close>

definition get_opts :: "calc_opts \<Rightarrow> string \<Rightarrow> string \<Rightarrow> py_error + opt_dict" where
  "get_opts c calc_type opt_set_name =
     (case dict_getitem c calc_type of
        Inl e \<Rightarrow> Inl e
      | Inr d \<Rightarrow> dict_getitem d opt_set_name)"

definition avail_set_names :: "calc_opts \<Rightarrow> string \<Rightarrow> py_error + string list" where
  "avail_set_names c calc_type =
     (case dict_getitem c calc_type of
        Inl e \<Rightarrow> Inl e
      | Inr d \<Rightarrow> Inr (dict_keys d))"

text \<open>
  The rename step of \<^verbatim>\<open>MainWindow.open_calc_opt_edit_dialog\<close> (lines 325 to 335), after the
  edit dialog has closed. \<open>new\<close> is \<^verbatim>\<open>old_new_opt_set_names['new']\<close>: \<open>None\<close> when the dialog
  was not accepted, the text of the name field otherwise.
  \<^verbatim>\<open>
  if old_new_opt_set_names['new'] is None: accepted = False
  else: accepted = True
  if accepted and (old_new_opt_set_names['old'] != old_new_opt_set_names['new']):
      self._calc_opts[calc_type][old_new_opt_set_names['new']] = \
          self._calc_opts[calc_type][old_new_opt_set_names['old']]
      del self._calc_opts[calc_type][old_new_opt_set_names['old']]
  \<close>
  The result is the exception raised, if any, and the catalog afterwards. The right-hand
  side of the assignment is evaluated first, so a \<^verbatim>\<open>KeyError\<close> leaves the catalog as it
  was. The inner dictionary is changed in place: the outer one keeps its keys and their
  order. There is no other check in the source: the new name is neither tested for being
  empty nor for being in use.

  The step is the last part of the handler; the handler as a whole,
  \<open>open_calc_opt_edit_dialog\<close>, follows it below.
\<close>

definition rename_opt_set ::
  "calc_opts \<Rightarrow> string \<Rightarrow> string \<Rightarrow> string option \<Rightarrow> py_error option \<times> calc_opts" where
  "rename_opt_set c calc_type old new =
     (case new of
        None \<Rightarrow> (None, c)
      | Some new_name \<Rightarrow>
          if old \<noteq> new_name then
            (case dict_getitem c calc_type of
               Inl e \<Rightarrow> (Some e, c)
             | Inr d \<Rightarrow>
                 (case dict_getitem d old of
                    Inl e \<Rightarrow> (Some e, c)
                  | Inr v \<Rightarrow>
                      (None,
                       AList.update calc_type
                         (AList.delete old (AList.update new_name v d)) c)))
          else (None, c))"

text \<open>
  The whole handler \<^verbatim>\<open>MainWindow.open_calc_opt_edit_dialog\<close> (lines 300 to 335), as far as
  the catalog goes; the combo boxes it refreshes afterwards (lines 337 to 351) show the
  names and hold none.
  \<^verbatim>\<open>
  opts = self._calc_opts[calc_type][opt_set_name]
  old_new_opt_set_names = dict(old=opt_set_name, new=None)
  if calc_type == 'xy_aper':
      dialog = DialogCalcOptXYAper(old_new_opt_set_names, opts)
  elif calc_type in ('fmap_xy', 'cmap_xy'):
      dialog = DialogCalcOptMap('xy', old_new_opt_set_names, opts)
  elif calc_type in ('fmap_px', 'cmap_px'):
      dialog = DialogCalcOptMap('px', old_new_opt_set_names, opts)
  elif calc_type == 'tswa': raise NotImplementedError()
  elif calc_type == 'nonlin_chrom': raise NotImplementedError()
  elif calc_type == 'mom_aper': raise NotImplementedError()
  else: raise ValueError('Invalid "calc_type"')
  dialog.exec_()
  \<close>
  followed by the rename step above.
\<close>

datatype dialog_kind = DialogCalcOptXYAper | DialogCalcOptMap_xy | DialogCalcOptMap_px

definition dialog_for :: "string \<Rightarrow> py_error + dialog_kind" where
  "dialog_for calc_type =
     (if calc_type = ''xy_aper'' then Inr DialogCalcOptXYAper
      else if calc_type = ''fmap_xy'' \<or> calc_type = ''cmap_xy'' then Inr DialogCalcOptMap_xy
      else if calc_type = ''fmap_px'' \<or> calc_type = ''cmap_px'' then Inr DialogCalcOptMap_px
      else if calc_type = ''tswa'' then Inl NotImplementedError
      else if calc_type = ''nonlin_chrom'' then Inl NotImplementedError
      else if calc_type = ''mom_aper'' then Inl NotImplementedError
      else Inl ValueError)"

text \<open>
  What the dialog does between its construction and the return of \<^verbatim>\<open>exec_\<close> is the
  user's doing, so it is an argument of the handler: a function of the dialog class, the
  old name and the option set the dialog is opened on. Its constructor only reads the
  option set, and raises when a key it shows is missing or a value is not of the type
  the widget takes: the result \<open>Inl e\<close>. Otherwise the dialog closes and leaves
  \<^verbatim>\<open>old_new_opt_set_names['new']\<close> and the option set behind: the result \<open>Inr (new, opts')\<close>.
  A rejected dialog leaves \<open>None\<close> and the option set as it was; an accepted one has run
  \<^verbatim>\<open>update_opt_dict\<close>, which stores the text of the name field as the new name and writes
  the widgets' values into the option set.

  The option set the dialog writes into is the object stored in the catalog, so what it
  wrote is in the catalog, under the old name, when the rename step runs:
  \<open>store_opts\<close> puts it there, in place.
\<close>

type_synonym dialog_run =
  "dialog_kind \<Rightarrow> string \<Rightarrow> opt_dict \<Rightarrow> py_error + (string option \<times> opt_dict)"

definition store_opts :: "calc_opts \<Rightarrow> string \<Rightarrow> string \<Rightarrow> opt_dict \<Rightarrow> calc_opts" where
  "store_opts c calc_type opt_set_name opts =
     (case map_of c calc_type of
        None \<Rightarrow> c
      | Some d \<Rightarrow> AList.update calc_type (AList.update opt_set_name opts d) c)"

definition open_calc_opt_edit_dialog ::
  "calc_opts \<Rightarrow> string \<Rightarrow> string \<Rightarrow> dialog_run \<Rightarrow> py_error option \<times> calc_opts" where
  "open_calc_opt_edit_dialog c calc_type opt_set_name dialog =
     (case get_opts c calc_type opt_set_name of
        Inl e \<Rightarrow> (Some e, c)
      | Inr opts \<Rightarrow>
          (case dialog_for calc_type of
             Inl e \<Rightarrow> (Some e, c)
           | Inr kind \<Rightarrow>
               (case dialog kind opt_set_name opts of
                  Inl e \<Rightarrow> (Some e, c)
                | Inr (new, opts') \<Rightarrow>
                    rename_opt_set (store_opts c calc_type opt_set_name opts')
                      calc_type opt_set_name new)))"

text \<open>The turn count of an option set, when it has one and it is an integer.\<close>

definition n_turns_of :: "opt_dict \<Rightarrow> int option" where
  "n_turns_of opts =
     (case map_of opts ''n_turns'' of Some (PInt n) \<Rightarrow> Some n | _ \<Rightarrow> None)"

text \<open>\<^verbatim>\<open>list(self._calc_opts[calc_type][opt_set_name])\<close>: the keys of one option set.\<close>

definition opt_set_keys :: "calc_opts \<Rightarrow> string \<Rightarrow> string \<Rightarrow> py_error + string list" where
  "opt_set_keys c calc_type opt_set_name =
     (case get_opts c calc_type opt_set_name of
        Inl e \<Rightarrow> Inl e
      | Inr opts \<Rightarrow> Inr (dict_keys opts))"

section \<open>The include, recalc and replot check boxes\<close>

text \<open>
  The main window has, for every calculation type \<open>t\<close>, the check boxes
  \<^verbatim>\<open>checkBox_nonlin_include_t\<close>, \<^verbatim>\<open>checkBox_nonlin_recalc_t\<close> and
  \<^verbatim>\<open>checkBox_nonlin_replot_t\<close>, and the three boxes
  \<^verbatim>\<open>checkBox_nonlin_include_all\<close>, \<^verbatim>\<open>checkBox_nonlin_recalc_all\<close> and
  \<^verbatim>\<open>checkBox_nonlin_replot_all\<close>. The state the handlers read and write is whether a
  box is checked and, for the recalc and replot boxes, whether it is enabled.

  The handlers are connected to the \<^verbatim>\<open>clicked\<close> signal only. Qt emits
  \<^verbatim>\<open>clicked(checked)\<close> when the user clicks a box, after the box has taken its new
  state \<open>checked\<close>; \<^verbatim>\<open>setChecked\<close> called by the program changes the state of a box and
  emits no \<^verbatim>\<open>clicked\<close>, so no handler runs because of another handler.
\<close>

record nonlin_checkboxes =
  include_checked :: "string \<Rightarrow> bool"
  recalc_checked :: "string \<Rightarrow> bool"
  replot_checked :: "string \<Rightarrow> bool"
  recalc_enabled :: "string \<Rightarrow> bool"
  replot_enabled :: "string \<Rightarrow> bool"
  include_all_checked :: bool
  recalc_all_checked :: bool
  replot_all_checked :: bool

definition change_state_recalc_replot_checkboxes ::
  "string \<Rightarrow> bool \<Rightarrow> nonlin_checkboxes \<Rightarrow> nonlin_checkboxes" where
  "change_state_recalc_replot_checkboxes calc_type incl s =
     s\<lparr>recalc_enabled := (recalc_enabled s)(calc_type := incl),
       replot_enabled := (replot_enabled s)(calc_type := incl)\<rparr>"

definition uncheck_all_include :: "bool \<Rightarrow> nonlin_checkboxes \<Rightarrow> nonlin_checkboxes" where
  "uncheck_all_include checked s =
     (if \<not> checked then s\<lparr>include_all_checked := False\<rparr> else s)"

definition uncheck_all_recalc :: "bool \<Rightarrow> nonlin_checkboxes \<Rightarrow> nonlin_checkboxes" where
  "uncheck_all_recalc checked s =
     (if \<not> checked then s\<lparr>recalc_all_checked := False\<rparr> else s)"

definition uncheck_all_replot :: "bool \<Rightarrow> nonlin_checkboxes \<Rightarrow> nonlin_checkboxes" where
  "uncheck_all_replot checked s =
     (if \<not> checked then s\<lparr>replot_all_checked := False\<rparr> else s)"

text \<open>
  \<^verbatim>\<open>for calc_type in self.all_nonlin_calc_types: obj.setChecked(checked)\<close>, for the
  include, recalc and replot boxes.
\<close>

definition change_all_nonlin_calc_type_checkbox_states_include ::
  "bool \<Rightarrow> nonlin_checkboxes \<Rightarrow> nonlin_checkboxes" where
  "change_all_nonlin_calc_type_checkbox_states_include checked s =
     fold (\<lambda>calc_type s. s\<lparr>include_checked := (include_checked s)(calc_type := checked)\<rparr>)
       all_nonlin_calc_types s"

definition change_all_nonlin_calc_type_checkbox_states_recalc ::
  "bool \<Rightarrow> nonlin_checkboxes \<Rightarrow> nonlin_checkboxes" where
  "change_all_nonlin_calc_type_checkbox_states_recalc checked s =
     fold (\<lambda>calc_type s. s\<lparr>recalc_checked := (recalc_checked s)(calc_type := checked)\<rparr>)
       all_nonlin_calc_types s"

definition change_all_nonlin_calc_type_checkbox_states_replot ::
  "bool \<Rightarrow> nonlin_checkboxes \<Rightarrow> nonlin_checkboxes" where
  "change_all_nonlin_calc_type_checkbox_states_replot checked s =
     fold (\<lambda>calc_type s. s\<lparr>replot_checked := (replot_checked s)(calc_type := checked)\<rparr>)
       all_nonlin_calc_types s"

text \<open>
  A click: the clicked box takes the state \<open>checked\<close>, then the handlers connected to its
  \<^verbatim>\<open>clicked\<close> signal run in the order of their connection in \<^verbatim>\<open>MainWindow.__init__\<close>
  (lines 265 to 283). These are the operations the specification calls
  \<open>setInclude\<close>, \<open>setRecalc\<close>, \<open>setReplot\<close>, \<open>setIncludeAll\<close>, \<open>setRecalcAll\<close> and
  \<open>setReplotAll\<close>.
\<close>

definition clicked_include :: "string \<Rightarrow> bool \<Rightarrow> nonlin_checkboxes \<Rightarrow> nonlin_checkboxes" where
  "clicked_include calc_type checked s =
     change_state_recalc_replot_checkboxes calc_type checked
       (uncheck_all_include checked
          (s\<lparr>include_checked := (include_checked s)(calc_type := checked)\<rparr>))"

definition clicked_recalc :: "string \<Rightarrow> bool \<Rightarrow> nonlin_checkboxes \<Rightarrow> nonlin_checkboxes" where
  "clicked_recalc calc_type checked s =
     uncheck_all_recalc checked
       (s\<lparr>recalc_checked := (recalc_checked s)(calc_type := checked)\<rparr>)"

definition clicked_replot :: "string \<Rightarrow> bool \<Rightarrow> nonlin_checkboxes \<Rightarrow> nonlin_checkboxes" where
  "clicked_replot calc_type checked s =
     uncheck_all_replot checked
       (s\<lparr>replot_checked := (replot_checked s)(calc_type := checked)\<rparr>)"

definition clicked_include_all :: "bool \<Rightarrow> nonlin_checkboxes \<Rightarrow> nonlin_checkboxes" where
  "clicked_include_all checked s =
     change_all_nonlin_calc_type_checkbox_states_include checked
       (s\<lparr>include_all_checked := checked\<rparr>)"

definition clicked_recalc_all :: "bool \<Rightarrow> nonlin_checkboxes \<Rightarrow> nonlin_checkboxes" where
  "clicked_recalc_all checked s =
     change_all_nonlin_calc_type_checkbox_states_recalc checked
       (s\<lparr>recalc_all_checked := checked\<rparr>)"

definition clicked_replot_all :: "bool \<Rightarrow> nonlin_checkboxes \<Rightarrow> nonlin_checkboxes" where
  "clicked_replot_all checked s =
     change_all_nonlin_calc_type_checkbox_states_replot checked
       (s\<lparr>replot_all_checked := checked\<rparr>)"

text \<open>Sequences of clicks. A per-type box exists for the eight calculation types only.\<close>

datatype click =
    Include string bool
  | Recalc string bool
  | Replot string bool
  | Include_all bool
  | Recalc_all bool
  | Replot_all bool

fun click_step :: "click \<Rightarrow> nonlin_checkboxes \<Rightarrow> nonlin_checkboxes" where
  "click_step (Include t b) s = clicked_include t b s"
| "click_step (Recalc t b) s = clicked_recalc t b s"
| "click_step (Replot t b) s = clicked_replot t b s"
| "click_step (Include_all b) s = clicked_include_all b s"
| "click_step (Recalc_all b) s = clicked_recalc_all b s"
| "click_step (Replot_all b) s = clicked_replot_all b s"

fun click_box_exists :: "click \<Rightarrow> bool" where
  "click_box_exists (Include t b) = (t \<in> set all_nonlin_calc_types)"
| "click_box_exists (Recalc t b) = (t \<in> set all_nonlin_calc_types)"
| "click_box_exists (Replot t b) = (t \<in> set all_nonlin_calc_types)"
| "click_box_exists (Include_all b) = True"
| "click_box_exists (Recalc_all b) = True"
| "click_box_exists (Replot_all b) = True"

definition clicks :: "click list \<Rightarrow> nonlin_checkboxes \<Rightarrow> nonlin_checkboxes" where
  "clicks cs s = fold click_step cs s"

definition all_included :: "nonlin_checkboxes \<Rightarrow> bool" where
  "all_included s = list_all (include_checked s) all_nonlin_calc_types"

section \<open>The map options dialog: \<^verbatim>\<open>DialogCalcOptMap.update_opt_dict\<close>\<close>

text \<open>
  \<^verbatim>\<open>str.strip()\<close> removes the white space at both ends of a string. The characters of a
  \<open>string\<close> are the code points 0 to 255, and \<^verbatim>\<open>str.isspace\<close> holds there for
  9 to 13, 28 to 32, 133 and 160. \<^verbatim>\<open>bool(s)\<close> of a string is whether it is not empty.
\<close>

definition py_isspace :: "char \<Rightarrow> bool" where
  "py_isspace ch =
     (let n = (of_char ch :: nat)
      in (9 \<le> n \<and> n \<le> 13) \<or> (28 \<le> n \<and> n \<le> 32) \<or> n = 133 \<or> n = 160)"

definition py_strip :: "string \<Rightarrow> string" where
  "py_strip s = rev (dropWhile py_isspace (rev (dropWhile py_isspace s)))"

definition py_bool_of_str :: "string \<Rightarrow> bool" where
  "py_bool_of_str s = (s \<noteq> [])"

text \<open>
  What \<^verbatim>\<open>update_opt_dict\<close> reads from the widgets of the dialog when the dialog is
  accepted. A spin box gives its integer, a check box or the group box whether it is
  checked, a combo box its current text, the name and time fields their text. For a field
  read as \<^verbatim>\<open>float(self.lineEdit_xmin.text())\<close> the record holds the float that
  \<^verbatim>\<open>float\<close> returns, \<open>None\<close> when \<^verbatim>\<open>float\<close> raises \<^verbatim>\<open>ValueError\<close> on the text;
  for \<^verbatim>\<open>delta_min\<close> and \<^verbatim>\<open>delta_max\<close> it is the float after the multiplication by
  \<^verbatim>\<open>1e-2\<close>.
\<close>

record dialog_calc_opt_map =
  is_xy :: bool
  lineEdit_opt_set_name :: string
  spinBox_n_turns :: int
  lineEdit_xmin :: "pyfloat option"
  lineEdit_xmax :: "pyfloat option"
  spinBox_nx :: int
  lineEdit_ymin :: "pyfloat option"
  lineEdit_ymax :: "pyfloat option"
  spinBox_ny :: int
  lineEdit_delta_min :: "pyfloat option"
  lineEdit_delta_max :: "pyfloat option"
  spinBox_ndelta :: int
  lineEdit_x_offset :: "pyfloat option"
  lineEdit_y_offset :: "pyfloat option"
  lineEdit_delta_offset :: "pyfloat option"
  groupBox_remote_opts :: bool
  checkBox_partition :: bool
  comboBox_partition :: string
  checkBox_ntasks :: bool
  spinBox_ntasks :: int
  checkBox_time :: bool
  lineEdit_time :: string
  checkBox_diag_mode :: bool
  comboBox_diag_mode :: string

text \<open>
  \<^verbatim>\<open>self.opt_dict[key] = float(...)\<close>: the assignment, or the \<^verbatim>\<open>ValueError\<close> of
  \<^verbatim>\<open>float\<close>. \<open>py_then\<close> runs the next statement unless an exception was raised.
\<close>

definition set_float :: "string \<Rightarrow> pyfloat option \<Rightarrow> opt_dict \<Rightarrow> py_error + opt_dict" where
  "set_float key field od =
     (case field of
        None \<Rightarrow> Inl ValueError
      | Some x \<Rightarrow> Inr (AList.update key (PFloat x) od))"

definition py_then :: "py_error + 'a \<Rightarrow> ('a \<Rightarrow> py_error + 'b) \<Rightarrow> py_error + 'b" where
  "py_then r f = (case r of Inl e \<Rightarrow> Inl e | Inr x \<Rightarrow> f x)"

text \<open>
  The dictionary \<^verbatim>\<open>remote_opts\<close> built in lines 148 to 159:
  \<^verbatim>\<open>
  remote_opts = {}
  if self.checkBox_partition.isChecked():
      remote_opts['partition'] = self.comboBox_partition.currentText()
  if self.checkBox_ntasks.isChecked():
      remote_opts['ntasks'] = self.spinBox_ntasks.value()
  if self.checkBox_time.isChecked():
      time_str = self.lineEdit_time.text().strip()
      if time_str:
          remote_opts['time'] = time_str
  if self.checkBox_diag_mode.isChecked():
      remote_opts['diag_mode'] = bool(self.comboBox_diag_mode.currentText())
  \<close>
\<close>

definition build_remote_opts :: "dialog_calc_opt_map \<Rightarrow> opt_dict" where
  "build_remote_opts dlg =
     (let remote_opts = [];
          remote_opts =
            (if checkBox_partition dlg
             then AList.update ''partition'' (PStr (comboBox_partition dlg)) remote_opts
             else remote_opts);
          remote_opts =
            (if checkBox_ntasks dlg
             then AList.update ''ntasks'' (PInt (spinBox_ntasks dlg)) remote_opts
             else remote_opts);
          remote_opts =
            (if checkBox_time dlg
             then (let time_str = py_strip (lineEdit_time dlg)
                   in if py_bool_of_str time_str
                      then AList.update ''time'' (PStr time_str) remote_opts
                      else remote_opts)
             else remote_opts);
          remote_opts =
            (if checkBox_diag_mode dlg
             then AList.update ''diag_mode''
                    (PBool (py_bool_of_str (comboBox_diag_mode dlg))) remote_opts
             else remote_opts)
      in remote_opts)"

text \<open>
  \<^verbatim>\<open>update_opt_dict\<close> (lines 124 to 163) runs when the dialog is accepted. It stores the
  text of the name field as \<^verbatim>\<open>old_new_opt_set_names['new']\<close> and writes the widgets'
  values into the option set the dialog was opened on. The result is the new name and the
  option set afterwards, or the \<^verbatim>\<open>ValueError\<close> of the first \<^verbatim>\<open>float\<close> that fails; the
  source catches no exception, and the half-written option set of that case is not part
  of the result.
\<close>

definition DialogCalcOptMap_update_opt_dict ::
  "dialog_calc_opt_map \<Rightarrow> opt_dict \<Rightarrow> py_error + (string \<times> opt_dict)" where
  "DialogCalcOptMap_update_opt_dict dlg opt_dict =
     py_then (Inr (AList.update ''n_turns'' (PInt (spinBox_n_turns dlg)) opt_dict)) (\<lambda>od.
     py_then (set_float ''xmin'' (lineEdit_xmin dlg) od) (\<lambda>od.
     py_then (set_float ''xmax'' (lineEdit_xmax dlg) od) (\<lambda>od.
     py_then (Inr (AList.update ''nx'' (PInt (spinBox_nx dlg)) od)) (\<lambda>od.
     py_then
       (if is_xy dlg then
          py_then (set_float ''ymin'' (lineEdit_ymin dlg) od) (\<lambda>od.
          py_then (set_float ''ymax'' (lineEdit_ymax dlg) od) (\<lambda>od.
          Inr (AList.update ''ny'' (PInt (spinBox_ny dlg)) od)))
        else
          py_then (set_float ''delta_min'' (lineEdit_delta_min dlg) od) (\<lambda>od.
          py_then (set_float ''delta_max'' (lineEdit_delta_max dlg) od) (\<lambda>od.
          Inr (AList.update ''ndelta'' (PInt (spinBox_ndelta dlg)) od)))) (\<lambda>od.
     py_then (set_float ''x_offset'' (lineEdit_x_offset dlg) od) (\<lambda>od.
     py_then (set_float ''y_offset'' (lineEdit_y_offset dlg) od) (\<lambda>od.
     py_then (set_float ''delta_offset'' (lineEdit_delta_offset dlg) od) (\<lambda>od.
     Inr (lineEdit_opt_set_name dlg,
          if groupBox_remote_opts dlg
          then AList.update ''remote_opts'' (PDict (build_remote_opts dlg)) od
          else if ''remote_opts'' \<in> set (dict_keys od)
               then AList.delete ''remote_opts'' od
               else od)))))))))"

text \<open>
  The specification's format of a wall time, \<open>HH:MM\<close> with both parts numeric: two
  digits, a colon, two digits. It is the specification's wording; the source has no such
  test.
\<close>

definition is_digit :: "char \<Rightarrow> bool" where
  "is_digit ch = (let n = (of_char ch :: nat) in 48 \<le> n \<and> n \<le> 57)"

definition spec_wallTime_HH_MM :: "string \<Rightarrow> bool" where
  "spec_wallTime_HH_MM s =
     (case s of
        [h1, h2, sep, m1, m2] \<Rightarrow>
          is_digit h1 \<and> is_digit h2 \<and> sep = CHR '':'' \<and> is_digit m1 \<and> is_digit m2
      | _ \<Rightarrow> False)"

section \<open>Concrete inputs\<close>

text \<open>
  Two states at which the properties below are evaluated: the main window with every box
  checked and enabled, and a map dialog for the \<open>xy\<close> plane with remote options switched
  on, the time and diagnostic mode fields enabled, and the partition and task count
  fields disabled.
\<close>

definition boxes_all_checked :: nonlin_checkboxes where
  "boxes_all_checked =
     \<lparr>include_checked = (\<lambda>calc_type. True),
      recalc_checked = (\<lambda>calc_type. True),
      replot_checked = (\<lambda>calc_type. True),
      recalc_enabled = (\<lambda>calc_type. True),
      replot_enabled = (\<lambda>calc_type. True),
      include_all_checked = True,
      recalc_all_checked = True,
      replot_all_checked = True\<rparr>"

definition sample_dialog :: dialog_calc_opt_map where
  "sample_dialog =
     \<lparr>is_xy = True,
      lineEdit_opt_set_name = ''production'',
      spinBox_n_turns = 1024,
      lineEdit_xmin = Some (Float_lit (-10) (-3)),
      lineEdit_xmax = Some (Float_lit 10 (-3)),
      spinBox_nx = 201,
      lineEdit_ymin = Some (Float_lit 0 0),
      lineEdit_ymax = Some (Float_lit 5 (-3)),
      spinBox_ny = 201,
      lineEdit_delta_min = None,
      lineEdit_delta_max = None,
      spinBox_ndelta = 0,
      lineEdit_x_offset = Some (Float_lit 1 (-6)),
      lineEdit_y_offset = Some (Float_lit 1 (-6)),
      lineEdit_delta_offset = Some (Float_lit 0 0),
      groupBox_remote_opts = True,
      checkBox_partition = False,
      comboBox_partition = ''short'',
      checkBox_ntasks = False,
      spinBox_ntasks = 1,
      checkBox_time = True,
      lineEdit_time = ''30:00'',
      checkBox_diag_mode = True,
      comboBox_diag_mode = ''False''\<rparr>"

text \<open>
  A run of the edit dialog in which the user types a name and accepts, with the widgets
  showing the values the dialog was opened on: the new name is the typed one, and the
  values written back are the ones that were there.
\<close>

definition accept_with_name :: "string \<Rightarrow> dialog_run" where
  "accept_with_name new kind old opts = Inr (Some new, opts)"

section \<open>The seeded catalog\<close>

lemmas seed_defs =
  set_default_calc_opt_sets_def all_nonlin_calc_types_def seed_with_test_def cmap_from_def
  fmap_xy_sets_def fmap_px_sets_def dict_update_def Let_def
  xy_aper_production_def fmap_xy_production_def fmap_px_production_def tswa_production_def
  nonlin_chrom_production_def mom_aper_production_def

lemmas read_defs =
  get_opts_def avail_set_names_def opt_set_keys_def dict_getitem_def dict_keys_def

text \<open>
  The reads of the \<^verbatim>\<open>cmap\<close> blocks: when they run, the catalog holds under \<^verbatim>\<open>fmap_xy\<close>
  and \<^verbatim>\<open>fmap_px\<close> the values the definition of the seeded catalog passes to
  \<open>cmap_from\<close>, and the later blocks leave them alone.
\<close>

lemma seeded_fmap_sets:
  "dict_getitem set_default_calc_opt_sets ''fmap_xy'' = Inr fmap_xy_sets"
  "dict_getitem set_default_calc_opt_sets ''fmap_px'' = Inr fmap_px_sets"
  "dict_getitem fmap_xy_sets ''production'' = Inr fmap_xy_production"
  "dict_getitem fmap_xy_sets ''test'' =
     Inr (dict_update fmap_xy_production [(''nx'', PInt 21), (''ny'', PInt 21)])"
  "dict_getitem fmap_px_sets ''production'' = Inr fmap_px_production"
  "dict_getitem fmap_px_sets ''test'' =
     Inr (dict_update fmap_px_production [(''nx'', PInt 21), (''ny'', PInt 21)])"
  by (simp_all add: seed_defs dict_getitem_def)

lemma seeded_types: "dict_keys set_default_calc_opt_sets = all_nonlin_calc_types"
  by (simp add: seed_defs dict_keys_def)

text \<open>
  Claim C3, as amended. After \<^verbatim>\<open>_set_default_calc_opt_sets\<close>, the names of every
  calculation type contain \<^verbatim>\<open>production\<close>. For every type but \<^verbatim>\<open>tswa\<close> and
  \<^verbatim>\<open>nonlin_chrom\<close> they also contain \<^verbatim>\<open>test\<close>, and the turn count of the test set is
  at most that of the production set.
\<close>

theorem seeded_production_and_test:
  "\<forall>k \<in> set all_nonlin_calc_types.
     \<exists>names. avail_set_names set_default_calc_opt_sets k = Inr names \<and>
       ''production'' \<in> set names \<and>
       (k \<noteq> ''tswa'' \<and> k \<noteq> ''nonlin_chrom'' \<longrightarrow>
          ''test'' \<in> set names \<and>
          (\<exists>p t m n.
              get_opts set_default_calc_opt_sets k ''production'' = Inr p \<and>
              get_opts set_default_calc_opt_sets k ''test'' = Inr t \<and>
              n_turns_of p = Some m \<and> n_turns_of t = Some n \<and> n \<le> m))"
  by (simp add: seed_defs read_defs n_turns_of_def)

text \<open>The amended claim at \<^verbatim>\<open>mom_aper\<close>, whose test set has 16 turns.\<close>

theorem seeded_production_and_test_witness:
  "\<exists>names t.
     avail_set_names set_default_calc_opt_sets ''mom_aper'' = Inr names \<and>
     ''production'' \<in> set names \<and> ''test'' \<in> set names \<and>
     get_opts set_default_calc_opt_sets ''mom_aper'' ''test'' = Inr t \<and>
     n_turns_of t = Some 16"
proof -
  have k: "''mom_aper'' \<in> set all_nonlin_calc_types"
    by (simp add: all_nonlin_calc_types_def)
  obtain names p t m n where
    "avail_set_names set_default_calc_opt_sets ''mom_aper'' = Inr names"
    "''production'' \<in> set names" "''test'' \<in> set names"
    "get_opts set_default_calc_opt_sets ''mom_aper'' ''test'' = Inr t"
    "n_turns_of t = Some n"
    using seeded_production_and_test k by fastforce
  moreover have "get_opts set_default_calc_opt_sets ''mom_aper'' ''test'' = Inr t \<Longrightarrow>
      n_turns_of t = Some 16"
    by (auto simp add: seed_defs read_defs n_turns_of_def)
  ultimately show ?thesis by blast
qed

text \<open>
  The claim as stated fails at \<^verbatim>\<open>tswa\<close> and at \<^verbatim>\<open>nonlin_chrom\<close>: their only name is
  \<^verbatim>\<open>production\<close>.
\<close>

theorem seeded_tswa_has_no_test:
  "''tswa'' \<in> set all_nonlin_calc_types \<and>
   ''nonlin_chrom'' \<in> set all_nonlin_calc_types \<and>
   avail_set_names set_default_calc_opt_sets ''tswa'' = Inr [''production''] \<and>
   avail_set_names set_default_calc_opt_sets ''nonlin_chrom'' = Inr [''production'']"
  by (simp add: seed_defs read_defs)

text \<open>
  Claim C9 at \<^verbatim>\<open>fmap_px\<close> and \<^verbatim>\<open>cmap_px\<close>. The production set of \<^verbatim>\<open>fmap_px\<close> has no key
  \<^verbatim>\<open>ny\<close> (its grid is \<^verbatim>\<open>nx\<close> by \<^verbatim>\<open>ndelta\<close>), and the update
  \<^verbatim>\<open>{'nx': 21, 'ny': 21}\<close> of its test set adds one; \<^verbatim>\<open>cmap_px\<close> copies both sets.
  The keys of the test set are those of the production set and \<^verbatim>\<open>ny\<close>.
\<close>

theorem seeded_px_test_has_extra_key:
  "opt_set_keys set_default_calc_opt_sets ''fmap_px'' ''production'' =
     Inr [''n_turns'', ''delta_min'', ''delta_max'', ''xmin'', ''xmax'', ''ndelta'', ''nx'',
          ''x_offset'', ''y_offset'', ''delta_offset''] \<and>
   opt_set_keys set_default_calc_opt_sets ''fmap_px'' ''test'' =
     Inr [''n_turns'', ''delta_min'', ''delta_max'', ''xmin'', ''xmax'', ''ndelta'', ''nx'',
          ''x_offset'', ''y_offset'', ''delta_offset'', ''ny''] \<and>
   opt_set_keys set_default_calc_opt_sets ''cmap_px'' ''production'' =
     Inr [''n_turns'', ''delta_min'', ''delta_max'', ''xmin'', ''xmax'', ''ndelta'', ''nx'',
          ''x_offset'', ''y_offset'', ''delta_offset''] \<and>
   opt_set_keys set_default_calc_opt_sets ''cmap_px'' ''test'' =
     Inr [''n_turns'', ''delta_min'', ''delta_max'', ''xmin'', ''xmax'', ''ndelta'', ''nx'',
          ''x_offset'', ''y_offset'', ''delta_offset'', ''ny'']"
  by (simp add: seed_defs read_defs)

text \<open>
  For the other four types with a test set, the test set has the keys of the production
  set, in the same order.
\<close>

lemma seeded_test_keys_elsewhere:
  "k \<in> {''xy_aper'', ''fmap_xy'', ''cmap_xy'', ''mom_aper''} \<Longrightarrow>
   opt_set_keys set_default_calc_opt_sets k ''test'' =
     opt_set_keys set_default_calc_opt_sets k ''production''"
  by (auto simp add: seed_defs read_defs)

section \<open>Renaming an option set\<close>

lemma get_opts_update_same:
  "get_opts (AList.update k d c) k n = dict_getitem d n"
  by (simp add: get_opts_def dict_getitem_def update_conv')

lemma get_opts_update_other:
  "k' \<noteq> k \<Longrightarrow> get_opts (AList.update k d c) k' n = get_opts c k' n"
  by (simp add: get_opts_def dict_getitem_def update_conv')

lemma getitem_moved_old:
  "dict_getitem (AList.delete old (AList.update new v d)) old = Inl KeyError"
  by (simp add: dict_getitem_def delete_conv')

lemma getitem_moved_new:
  "old \<noteq> new \<Longrightarrow> dict_getitem (AList.delete old (AList.update new v d)) new = Inr v"
  by (simp add: dict_getitem_def delete_conv' update_conv')

lemma getitem_moved_other:
  "n \<noteq> old \<Longrightarrow> n \<noteq> new \<Longrightarrow>
   dict_getitem (AList.delete old (AList.update new v d)) n = dict_getitem d n"
  by (simp add: dict_getitem_def delete_conv' update_conv')

lemma get_opts_Inr:
  "get_opts c k n = Inr v \<longleftrightarrow> (\<exists>d. map_of c k = Some d \<and> map_of d n = Some v)"
  by (auto simp add: get_opts_def dict_getitem_def split: option.splits)

lemma get_opts_Inl: "get_opts c k n = Inl e \<Longrightarrow> e = KeyError"
  by (auto simp add: get_opts_def dict_getitem_def split: option.splits)

lemma rename_present:
  assumes "map_of c k = Some d" and "map_of d old = Some v" and "old \<noteq> new"
  shows "rename_opt_set c k old (Some new) =
           (None, AList.update k (AList.delete old (AList.update new v d)) c)"
  using assms by (simp add: rename_opt_set_def dict_getitem_def)


text \<open>
  The option set the dialog wrote back: it is read under its name, every other read and
  every list of names is as before, and writing back the values that were there changes
  nothing.
\<close>

lemma store_opts_present:
  assumes "map_of c k = Some d"
  shows "store_opts c k n opts = AList.update k (AList.update n opts d) c"
  using assms by (simp add: store_opts_def)

lemma get_opts_store_same:
  assumes "map_of c k = Some d"
  shows "get_opts (store_opts c k n opts) k n = Inr opts"
  using assms
  by (simp add: store_opts_present get_opts_update_same dict_getitem_def update_conv')

lemma get_opts_store_other:
  assumes "k' \<noteq> k \<or> m \<noteq> n"
  shows "get_opts (store_opts c k n opts) k' m = get_opts c k' m"
proof (cases "map_of c k")
  case None
  then show ?thesis by (simp add: store_opts_def)
next
  case (Some d)
  show ?thesis
  proof (cases "k' = k")
    case True
    with assms have "m \<noteq> n" by simp
    with True Some show ?thesis
      by (simp add: store_opts_present get_opts_update_same get_opts_def dict_getitem_def
          update_conv')
  next
    case False
    with Some show ?thesis by (simp add: store_opts_present get_opts_update_other)
  qed
qed

lemma store_opts_same_value:
  assumes "get_opts c k n = Inr opts"
  shows "store_opts c k n opts = c"
proof -
  obtain d where d: "map_of c k = Some d" "map_of d n = Some opts"
    using assms by (auto simp add: get_opts_Inr)
  then show ?thesis by (simp add: store_opts_present update_triv)
qed

lemma map_fst_update_present:
  assumes "map_of al k = Some v"
  shows "map fst (AList.update k w al) = map fst al"
proof -
  have "k \<in> fst ` set al" using assms by (rule map_of_SomeD [THEN imageI [of _ _ fst], simplified])
  then show ?thesis by (simp add: update_keys)
qed

lemma store_opts_keys:
  assumes "get_opts c k n = Inr opts"
  shows "dict_keys (store_opts c k n opts') = dict_keys c"
    and "avail_set_names (store_opts c k n opts') k' = avail_set_names c k'"
proof -
  obtain d where d: "map_of c k = Some d" "map_of d n = Some opts"
    using assms by (auto simp add: get_opts_Inr)
  show "dict_keys (store_opts c k n opts') = dict_keys c"
    using d by (simp add: store_opts_present dict_keys_def map_fst_update_present)
  show "avail_set_names (store_opts c k n opts') k' = avail_set_names c k'"
    using d
    by (cases "k' = k")
      (simp_all add: store_opts_present avail_set_names_def dict_getitem_def update_conv'
        dict_keys_def map_fst_update_present)
qed

lemma handler_no_set:
  assumes "get_opts c k old = Inl e"
  shows "open_calc_opt_edit_dialog c k old dialog = (Some KeyError, c)"
  using assms get_opts_Inl [OF assms] by (simp add: open_calc_opt_edit_dialog_def)

lemma handler_no_dialog:
  assumes "get_opts c k old = Inr opts" and "dialog_for k = Inl e"
  shows "open_calc_opt_edit_dialog c k old dialog = (Some e, c)"
  using assms by (simp add: open_calc_opt_edit_dialog_def)

lemma handler_constructor_raises:
  assumes "get_opts c k old = Inr opts" and "dialog_for k = Inr kind"
    and "dialog kind old opts = Inl e"
  shows "open_calc_opt_edit_dialog c k old dialog = (Some e, c)"
  using assms by (simp add: open_calc_opt_edit_dialog_def)

lemma dialog_for_not_implemented:
  "dialog_for k = Inl NotImplementedError \<longleftrightarrow>
     k = ''tswa'' \<or> k = ''nonlin_chrom'' \<or> k = ''mom_aper''"
  by (simp add: dialog_for_def)

lemma dialog_for_exists:
  "(\<exists>kind. dialog_for k = Inr kind) \<longleftrightarrow>
     k = ''xy_aper'' \<or> k = ''fmap_xy'' \<or> k = ''cmap_xy'' \<or> k = ''fmap_px'' \<or> k = ''cmap_px''"
  by (simp add: dialog_for_def)

lemma handler_renames:
  assumes g: "get_opts c k old = Inr opts" and k: "dialog_for k = Inr kind"
    and d: "dialog kind old opts = Inr (Some new, opts')" and ne: "old \<noteq> new"
  shows "\<exists>c'. open_calc_opt_edit_dialog c k old dialog = (None, c') \<and>
           get_opts c' k old = Inl KeyError \<and>
           get_opts c' k new = Inr opts' \<and>
           (\<forall>m. m \<noteq> old \<and> m \<noteq> new \<longrightarrow> get_opts c' k m = get_opts c k m) \<and>
           (\<forall>k' m. k' \<noteq> k \<longrightarrow> get_opts c' k' m = get_opts c k' m)"
proof -
  obtain d0 where d0: "map_of c k = Some d0" "map_of d0 old = Some opts"
    using g by (auto simp add: get_opts_Inr)
  let ?c1 = "store_opts c k old opts'"
  let ?d1 = "AList.update old opts' d0"
  have c1: "?c1 = AList.update k ?d1 c" using d0(1) by (rule store_opts_present)
  have m1: "map_of ?c1 k = Some ?d1" "map_of ?d1 old = Some opts'"
    by (simp_all add: c1 update_conv')
  let ?c' = "AList.update k (AList.delete old (AList.update new opts' ?d1)) ?c1"
  have run: "open_calc_opt_edit_dialog c k old dialog = (None, ?c')"
    using g k d by (simp add: open_calc_opt_edit_dialog_def rename_present [OF m1 ne])
  have other_names: "get_opts ?c' k m = get_opts c k m" if "m \<noteq> old \<and> m \<noteq> new" for m
    using that d0(1)
    by (simp add: get_opts_update_same getitem_moved_other)
      (simp add: dict_getitem_def update_conv' get_opts_def)
  have other_types: "get_opts ?c' k' m = get_opts c k' m" if "k' \<noteq> k" for k' m
    using that by (simp add: get_opts_update_other get_opts_store_other)
  show ?thesis
    using run ne other_names other_types
    by (simp add: get_opts_update_same getitem_moved_old getitem_moved_new)
qed

text \<open>
  Renaming keeps the keys of a dictionary distinct, so the association list stays a
  dictionary, and the renamed set is listed once.
\<close>

lemma rename_keeps_names_distinct:
  assumes "distinct (dict_keys d)"
  shows "distinct (dict_keys (AList.delete old (AList.update new v d)))"
  using assms unfolding dict_keys_def by (intro distinct_delete distinct_update)

text \<open>
  Claim C2, as amended. The handler tests the new name for nothing: an empty new name is
  stored as it is, and a new name that is in use takes over the entry of that name. It
  raises only before it has changed anything: \<^verbatim>\<open>KeyError\<close> when the calculation type
  or the old name is not in the catalog, \<^verbatim>\<open>NotImplementedError\<close> for \<^verbatim>\<open>tswa\<close>,
  \<^verbatim>\<open>nonlin_chrom\<close> and \<^verbatim>\<open>mom_aper\<close>, which have no edit dialog, \<^verbatim>\<open>ValueError\<close> for
  a type that is none of the eight, and what the constructor of the dialog raises; the
  catalog is then as it was. When the dialog is accepted with a new name that differs
  from the old one, the old name is gone afterwards, the new name holds the option set
  that was under the old name, with the values the dialog wrote, and every other name
  and every other calculation type read as before.
\<close>

theorem rename_without_validation:
  "case get_opts c k old of
     Inl e \<Rightarrow> open_calc_opt_edit_dialog c k old dialog = (Some KeyError, c)
   | Inr opts \<Rightarrow>
       (case dialog_for k of
          Inl e \<Rightarrow>
            open_calc_opt_edit_dialog c k old dialog = (Some e, c) \<and>
            (e = NotImplementedError \<longleftrightarrow>
               k = ''tswa'' \<or> k = ''nonlin_chrom'' \<or> k = ''mom_aper'')
        | Inr kind \<Rightarrow>
            (case dialog kind old opts of
               Inl e \<Rightarrow> open_calc_opt_edit_dialog c k old dialog = (Some e, c)
             | Inr (new, opts') \<Rightarrow>
                 (\<forall>n. new = Some n \<and> old \<noteq> n \<longrightarrow>
                    (\<exists>c'. open_calc_opt_edit_dialog c k old dialog = (None, c') \<and>
                       get_opts c' k old = Inl KeyError \<and>
                       get_opts c' k n = Inr opts' \<and>
                       (\<forall>m. m \<noteq> old \<and> m \<noteq> n \<longrightarrow> get_opts c' k m = get_opts c k m) \<and>
                       (\<forall>k' m. k' \<noteq> k \<longrightarrow> get_opts c' k' m = get_opts c k' m)))))"
proof (cases "get_opts c k old")
  case (Inl e)
  then show ?thesis by (simp add: handler_no_set)
next
  case g: (Inr opts)
  show ?thesis
  proof (cases "dialog_for k")
    case (Inl e)
    then show ?thesis
      using g dialog_for_not_implemented [of k] by (simp add: handler_no_dialog)
  next
    case kd: (Inr kind)
    show ?thesis
    proof (cases "dialog kind old opts")
      case (Inl e)
      then show ?thesis using g kd by (simp add: handler_constructor_raises)
    next
      case (Inr r)
      obtain new opts' where r: "r = (new, opts')" by (cases r)
      show ?thesis
        using g kd Inr r handler_renames [OF g kd] by (auto simp del: split_paired_Ex)
    qed
  qed
qed

text \<open>
  The amended claim on the seeded catalog: the production set of \<^verbatim>\<open>cmap_xy\<close> renamed
  to \<^verbatim>\<open>fast\<close>.
\<close>

theorem rename_without_validation_witness:
  "\<exists>c'. open_calc_opt_edit_dialog set_default_calc_opt_sets ''cmap_xy'' ''production''
          (accept_with_name ''fast'') = (None, c') \<and>
        get_opts c' ''cmap_xy'' ''production'' = Inl KeyError \<and>
        get_opts c' ''cmap_xy'' ''fast'' = Inr fmap_xy_production"
proof -
  have g: "get_opts set_default_calc_opt_sets ''cmap_xy'' ''production'' = Inr fmap_xy_production"
    by (simp add: seed_defs read_defs)
  have k: "dialog_for ''cmap_xy'' = Inr DialogCalcOptMap_xy"
    by (simp add: dialog_for_def)
  have d: "accept_with_name ''fast'' DialogCalcOptMap_xy ''production'' fmap_xy_production =
      Inr (Some ''fast'', fmap_xy_production)"
    by (simp add: accept_with_name_def)
  have ne: "''production'' \<noteq> ''fast''" by simp
  let ?run = "open_calc_opt_edit_dialog set_default_calc_opt_sets ''cmap_xy'' ''production''
      (accept_with_name ''fast'')"
  have "\<exists>c'. ?run = (None, c') \<and>
      get_opts c' ''cmap_xy'' ''production'' = Inl KeyError \<and>
      get_opts c' ''cmap_xy'' ''fast'' = Inr fmap_xy_production \<and>
      (\<forall>m. m \<noteq> ''production'' \<and> m \<noteq> ''fast'' \<longrightarrow>
           get_opts c' ''cmap_xy'' m = get_opts set_default_calc_opt_sets ''cmap_xy'' m) \<and>
      (\<forall>k' m. k' \<noteq> ''cmap_xy'' \<longrightarrow>
           get_opts c' k' m = get_opts set_default_calc_opt_sets k' m)"
    using rename_without_validation
      [of set_default_calc_opt_sets "''cmap_xy''" "''production''" "accept_with_name ''fast''"]
      ne
    by (simp add: g k d)
  then obtain c' where "?run = (None, c')"
    "get_opts c' ''cmap_xy'' ''production'' = Inl KeyError"
    "get_opts c' ''cmap_xy'' ''fast'' = Inr fmap_xy_production"
    by (elim exE conjE)
  then show ?thesis by (intro exI [of _ c'] conjI)
qed

text \<open>
  The claim as stated fails on the seeded catalog. Renaming \<^verbatim>\<open>production\<close> of
  \<^verbatim>\<open>xy_aper\<close> to the name \<^verbatim>\<open>test\<close>, which is in use, raises nothing: the type is left
  with the one name \<^verbatim>\<open>test\<close>, which holds the former production set. Renaming it to the
  empty name raises nothing either, and the empty name is listed.
\<close>

theorem rename_accepts_used_and_empty_names:
  "fst (open_calc_opt_edit_dialog set_default_calc_opt_sets ''xy_aper'' ''production''
          (accept_with_name ''test'')) = None \<and>
   avail_set_names
     (snd (open_calc_opt_edit_dialog set_default_calc_opt_sets ''xy_aper'' ''production''
             (accept_with_name ''test''))) ''xy_aper'' = Inr [''test''] \<and>
   get_opts
     (snd (open_calc_opt_edit_dialog set_default_calc_opt_sets ''xy_aper'' ''production''
             (accept_with_name ''test''))) ''xy_aper'' ''test'' = Inr xy_aper_production \<and>
   fst (open_calc_opt_edit_dialog set_default_calc_opt_sets ''xy_aper'' ''production''
          (accept_with_name [])) = None \<and>
   avail_set_names
     (snd (open_calc_opt_edit_dialog set_default_calc_opt_sets ''xy_aper'' ''production''
             (accept_with_name []))) ''xy_aper'' = Inr [''test'', []]"
  by (simp add: open_calc_opt_edit_dialog_def dialog_for_def accept_with_name_def
      store_opts_def rename_opt_set_def seed_defs read_defs)



text \<open>
  Claim C7, as amended. Take a name that is in the catalog for its calculation type, and
  a dialog that closes with that same name. For \<^verbatim>\<open>tswa\<close>, \<^verbatim>\<open>nonlin_chrom\<close> and
  \<^verbatim>\<open>mom_aper\<close> the handler raises \<^verbatim>\<open>NotImplementedError\<close> before any dialog opens, and
  the catalog is as it was; so it is when the type is none of the eight or the
  constructor of the dialog raises. For the five types with a dialog nothing is raised
  and no entry is added, removed or renamed: the calculation types and the names of each
  are the same, in the same order, and every option set but the edited one reads as
  before. The edited one holds the values the dialog wrote, and when these are the
  values it had, the catalog is the catalog before. The handler returns no value on any
  path.
\<close>

theorem rename_same_name:
  assumes "get_opts c k n = Inr opts"
  shows "case dialog_for k of
           Inl e \<Rightarrow>
             open_calc_opt_edit_dialog c k n dialog = (Some e, c) \<and>
             (e = NotImplementedError \<longleftrightarrow>
                k = ''tswa'' \<or> k = ''nonlin_chrom'' \<or> k = ''mom_aper'')
         | Inr kind \<Rightarrow>
             (case dialog kind n opts of
                Inl e \<Rightarrow> open_calc_opt_edit_dialog c k n dialog = (Some e, c)
              | Inr (new, opts') \<Rightarrow>
                  new = Some n \<longrightarrow>
                    (\<exists>c'. open_calc_opt_edit_dialog c k n dialog = (None, c') \<and>
                       dict_keys c' = dict_keys c \<and>
                       (\<forall>k'. avail_set_names c' k' = avail_set_names c k') \<and>
                       get_opts c' k n = Inr opts' \<and>
                       (\<forall>k' m. k' \<noteq> k \<or> m \<noteq> n \<longrightarrow> get_opts c' k' m = get_opts c k' m) \<and>
                       (opts' = opts \<longrightarrow> c' = c)))"
proof (cases "dialog_for k")
  case (Inl e)
  then show ?thesis
    using assms dialog_for_not_implemented [of k] by (simp add: handler_no_dialog)
next
  case kd: (Inr kind)
  show ?thesis
  proof (cases "dialog kind n opts")
    case (Inl e)
    then show ?thesis using assms kd by (simp add: handler_constructor_raises)
  next
    case (Inr r)
    obtain new opts' where r: "r = (new, opts')" by (cases r)
    obtain d where d: "map_of c k = Some d"
      using assms by (auto simp add: get_opts_Inr)
    have "open_calc_opt_edit_dialog c k n dialog = (None, store_opts c k n opts')"
      if "new = Some n"
      using that Inr r assms kd
      by (simp add: open_calc_opt_edit_dialog_def rename_opt_set_def)
    then show ?thesis
      using kd Inr r store_opts_keys [OF assms] get_opts_store_same [OF d]
        get_opts_store_other store_opts_same_value [OF assms]
      by simp
  qed
qed

text \<open>
  The amended claim on the seeded catalog: the production set of \<^verbatim>\<open>fmap_xy\<close>, with the
  dialog accepted under the same name.
\<close>

theorem rename_same_name_witness:
  "get_opts set_default_calc_opt_sets ''fmap_xy'' ''production'' = Inr fmap_xy_production \<and>
   open_calc_opt_edit_dialog set_default_calc_opt_sets ''fmap_xy'' ''production''
     (accept_with_name ''production'') = (None, set_default_calc_opt_sets)"
proof -
  have g: "get_opts set_default_calc_opt_sets ''fmap_xy'' ''production'' = Inr fmap_xy_production"
    by (simp add: seed_defs read_defs)
  have k: "dialog_for ''fmap_xy'' = Inr DialogCalcOptMap_xy"
    by (simp add: dialog_for_def)
  have d: "accept_with_name ''production'' DialogCalcOptMap_xy ''production'' fmap_xy_production =
      Inr (Some ''production'', fmap_xy_production)"
    by (simp add: accept_with_name_def)
  show ?thesis
    using rename_same_name [OF g, of "accept_with_name ''production''"] g
    by (auto simp add: k d)
qed

text \<open>
  The claim as stated fails at \<^verbatim>\<open>tswa\<close>, whose name \<^verbatim>\<open>production\<close> is in the seeded
  catalog: the handler raises \<^verbatim>\<open>NotImplementedError\<close> and returns nothing.
\<close>

theorem rename_same_name_raises_without_dialog:
  "get_opts set_default_calc_opt_sets ''tswa'' ''production'' = Inr tswa_production \<and>
   open_calc_opt_edit_dialog set_default_calc_opt_sets ''tswa'' ''production''
     (accept_with_name ''production'') = (Some NotImplementedError, set_default_calc_opt_sets)"
  by (simp add: open_calc_opt_edit_dialog_def dialog_for_def read_defs seed_defs)

section \<open>The check boxes\<close>

lemma fold_include:
  "fold (\<lambda>t s. s\<lparr>include_checked := (include_checked s)(t := b)\<rparr>) xs s =
     s\<lparr>include_checked := (\<lambda>t. if t \<in> set xs then b else include_checked s t)\<rparr>"
  by (induction xs arbitrary: s) (auto simp add: fun_eq_iff)

lemma fold_recalc:
  "fold (\<lambda>t s. s\<lparr>recalc_checked := (recalc_checked s)(t := b)\<rparr>) xs s =
     s\<lparr>recalc_checked := (\<lambda>t. if t \<in> set xs then b else recalc_checked s t)\<rparr>"
  by (induction xs arbitrary: s) (auto simp add: fun_eq_iff)

lemma fold_replot:
  "fold (\<lambda>t s. s\<lparr>replot_checked := (replot_checked s)(t := b)\<rparr>) xs s =
     s\<lparr>replot_checked := (\<lambda>t. if t \<in> set xs then b else replot_checked s t)\<rparr>"
  by (induction xs arbitrary: s) (auto simp add: fun_eq_iff)

lemmas click_defs =
  clicked_include_def clicked_recalc_def clicked_replot_def
  clicked_include_all_def clicked_recalc_all_def clicked_replot_all_def
  uncheck_all_include_def uncheck_all_recalc_def uncheck_all_replot_def
  change_state_recalc_replot_checkboxes_def
  change_all_nonlin_calc_type_checkbox_states_include_def
  change_all_nonlin_calc_type_checkbox_states_recalc_def
  change_all_nonlin_calc_type_checkbox_states_replot_def
  fold_include fold_recalc fold_replot

lemma all_included_iff:
  "all_included s \<longleftrightarrow> (\<forall>t \<in> set all_nonlin_calc_types. include_checked s t)"
  by (simp add: all_included_def list_all_iff)

lemma first_type_exists: "''xy_aper'' \<in> set all_nonlin_calc_types"
  by (simp add: all_nonlin_calc_types_def)

lemma include_all_after_set_all:
  "include_all_checked (clicked_include_all b s) = b"
  "all_included (clicked_include_all b s) = b"
  using first_type_exists by (auto simp add: click_defs all_included_iff)

lemma include_all_after_uncheck:
  assumes "t \<in> set all_nonlin_calc_types"
  shows "\<not> include_all_checked (clicked_include t False s)"
    and "\<not> all_included (clicked_include t False s)"
  using assms by (auto simp add: click_defs all_included_iff)

lemma click_step_sound:
  assumes "click_box_exists c" and "include_all_checked s \<longrightarrow> all_included s"
  shows "include_all_checked (click_step c s) \<longrightarrow> all_included (click_step c s)"
proof (cases c)
  case (Include t b)
  then show ?thesis using assms by (auto simp add: click_defs all_included_iff)
next
  case (Include_all b)
  then show ?thesis by (simp add: include_all_after_set_all)
qed (use assms in \<open>auto simp add: click_defs all_included_iff\<close>)

lemma clicks_sound:
  assumes "list_all click_box_exists cs" and "include_all_checked s \<longrightarrow> all_included s"
  shows "include_all_checked (clicks cs s) \<longrightarrow> all_included (clicks cs s)"
  using assms unfolding clicks_def
proof (induction cs arbitrary: s)
  case Nil
  then show ?case by simp
next
  case (Cons c cs)
  from Cons.prems
  have "include_all_checked (click_step c s) \<longrightarrow> all_included (click_step c s)"
    by (intro click_step_sound) auto
  with Cons show ?case by simp
qed

text \<open>
  Claim C1, as amended. Take any sequence of clicks on boxes of the window, from a state
  in which the box \<^verbatim>\<open>include_all\<close> is checked only if the include box of every
  calculation type is. Then after each click of the sequence the box \<^verbatim>\<open>include_all\<close> is
  checked only if every include box is. The converse holds right after a click on
  \<^verbatim>\<open>include_all\<close> and right after a click that unchecks the include box of a type; it
  is not promised after a click that checks one.
\<close>

theorem include_all_implies_all_included:
  assumes "list_all click_box_exists cs" and "include_all_checked s \<longrightarrow> all_included s"
  shows "(\<forall>n \<le> length cs.
            include_all_checked (clicks (take n cs) s) \<longrightarrow>
            all_included (clicks (take n cs) s)) \<and>
         (\<forall>b. include_all_checked (clicked_include_all b s) =
               all_included (clicked_include_all b s)) \<and>
         (\<forall>t \<in> set all_nonlin_calc_types.
            include_all_checked (clicked_include t False s) =
            all_included (clicked_include t False s))"
proof (intro conjI allI impI ballI)
  fix n
  assume "n \<le> length cs"
  have "list_all click_box_exists (take n cs)"
    using assms(1) by (auto simp add: list_all_iff dest: in_set_takeD)
  then have "include_all_checked (clicks (take n cs) s) \<longrightarrow>
      all_included (clicks (take n cs) s)"
    using assms(2) by (rule clicks_sound)
  moreover assume "include_all_checked (clicks (take n cs) s)"
  ultimately show "all_included (clicks (take n cs) s)" by simp
next
  fix b
  show "include_all_checked (clicked_include_all b s) =
      all_included (clicked_include_all b s)"
    by (simp add: include_all_after_set_all)
next
  fix t
  assume "t \<in> set all_nonlin_calc_types"
  then show "include_all_checked (clicked_include t False s) =
      all_included (clicked_include t False s)"
    by (simp add: include_all_after_uncheck)
qed

text \<open>
  The amended claim from the state with every box checked: after unchecking the include
  box of \<^verbatim>\<open>tswa\<close> and then checking \<^verbatim>\<open>include_all\<close>, the box \<^verbatim>\<open>include_all\<close> is
  checked, and so is every include box.
\<close>

theorem include_all_implies_all_included_witness:
  "include_all_checked (clicks [Include ''tswa'' False, Include_all True] boxes_all_checked) \<and>
   all_included (clicks [Include ''tswa'' False, Include_all True] boxes_all_checked)"
proof -
  let ?cs = "[Include ''tswa'' False, Include_all True]"
  have boxes: "list_all click_box_exists ?cs"
    by (simp add: all_nonlin_calc_types_def)
  have start: "include_all_checked boxes_all_checked \<longrightarrow> all_included boxes_all_checked"
    by (simp add: boxes_all_checked_def all_included_def all_nonlin_calc_types_def)
  have checked: "include_all_checked (clicks ?cs boxes_all_checked)"
    by (simp add: clicks_def click_defs)
  have "\<forall>n \<le> length ?cs.
      include_all_checked (clicks (take n ?cs) boxes_all_checked) \<longrightarrow>
      all_included (clicks (take n ?cs) boxes_all_checked)"
    using include_all_implies_all_included [OF boxes start] by (rule conjunct1)
  then have "include_all_checked (clicks (take 2 ?cs) boxes_all_checked) \<longrightarrow>
      all_included (clicks (take 2 ?cs) boxes_all_checked)"
    by (rule allE [of _ 2]) simp
  then have "include_all_checked (clicks ?cs boxes_all_checked) \<longrightarrow>
      all_included (clicks ?cs boxes_all_checked)"
    by simp
  with checked show ?thesis by (rule_tac conjI) auto
qed

text \<open>
  The claim as stated fails: from the state with every box checked, unchecking the
  include box of \<^verbatim>\<open>tswa\<close> and checking it again leaves every include box checked and
  the box \<^verbatim>\<open>include_all\<close> unchecked.
\<close>

theorem include_all_stays_unchecked:
  "include_all_checked boxes_all_checked \<and> all_included boxes_all_checked \<and>
   all_included (clicks [Include ''tswa'' False, Include ''tswa'' True] boxes_all_checked) \<and>
   \<not> include_all_checked
       (clicks [Include ''tswa'' False, Include ''tswa'' True] boxes_all_checked)"
  by (simp add: clicks_def click_defs all_included_def all_nonlin_calc_types_def
      boxes_all_checked_def)

text \<open>
  Claim C5. From a state in which every include box and the box \<^verbatim>\<open>include_all\<close> are
  checked, a click that unchecks the include box of one type \<open>B\<close> unchecks
  \<^verbatim>\<open>include_all\<close>, leaves the include box of \<open>B\<close> unchecked, and leaves the include box
  of every other type as it was, that is, checked.
\<close>

theorem uncheck_one_include:
  assumes "all_included s" and "include_all_checked s" and "B \<in> set all_nonlin_calc_types"
  shows "\<not> include_all_checked (clicked_include B False s) \<and>
         \<not> include_checked (clicked_include B False s) B \<and>
         (\<forall>A. A \<noteq> B \<longrightarrow>
            include_checked (clicked_include B False s) A = include_checked s A) \<and>
         (\<forall>A \<in> set all_nonlin_calc_types. A \<noteq> B \<longrightarrow>
            include_checked (clicked_include B False s) A)"
  using assms by (auto simp add: click_defs all_included_iff)

text \<open>Claim C5 at the state with every box checked, for \<open>B\<close> the type \<^verbatim>\<open>fmap_xy\<close>.\<close>

theorem uncheck_one_include_witness:
  "all_included boxes_all_checked \<and> include_all_checked boxes_all_checked \<and>
   \<not> include_all_checked (clicked_include ''fmap_xy'' False boxes_all_checked) \<and>
   \<not> include_checked (clicked_include ''fmap_xy'' False boxes_all_checked) ''fmap_xy'' \<and>
   include_checked (clicked_include ''fmap_xy'' False boxes_all_checked) ''xy_aper''"
proof -
  have a: "all_included boxes_all_checked"
    by (simp add: boxes_all_checked_def all_included_def all_nonlin_calc_types_def)
  have b: "include_all_checked boxes_all_checked"
    by (simp add: boxes_all_checked_def)
  have c: "''fmap_xy'' \<in> set all_nonlin_calc_types"
    by (simp add: all_nonlin_calc_types_def)
  have d: "''xy_aper'' \<noteq> ''fmap_xy''" by simp
  note u = uncheck_one_include [OF a b c]
  have "include_checked (clicked_include ''fmap_xy'' False boxes_all_checked) ''xy_aper''"
    using u first_type_exists d by (elim conjE ballE [of _ _ "''xy_aper''"]) auto
  with u a b show ?thesis by (intro conjI) (elim conjE, assumption)+
qed

text \<open>
  Claim C6. Unchecking the include box of a type and checking it again leaves the recalc
  and replot boxes, of that type and of every other, checked or unchecked as they were:
  a click on an include box enables or disables the two boxes and does not change
  whether they are checked.
\<close>

theorem include_round_trip:
  "recalc_checked (clicked_include k True (clicked_include k False s)) k = recalc_checked s k \<and>
   replot_checked (clicked_include k True (clicked_include k False s)) k = replot_checked s k \<and>
   recalc_checked (clicked_include k False s) k = recalc_checked s k \<and>
   replot_checked (clicked_include k False s) k = replot_checked s k \<and>
   recalc_checked (clicked_include k True (clicked_include k False s)) = recalc_checked s \<and>
   replot_checked (clicked_include k True (clicked_include k False s)) = replot_checked s"
  by (simp add: click_defs)

text \<open>
  Claim C6 for \<^verbatim>\<open>cmap_px\<close>, from a state in which its recalc box is checked and its
  replot box is not.
\<close>

theorem include_round_trip_witness:
  "recalc_checked
     (clicked_include ''cmap_px'' True
        (clicked_include ''cmap_px'' False
           (boxes_all_checked\<lparr>replot_checked := (replot_checked boxes_all_checked)
              (''cmap_px'' := False)\<rparr>))) ''cmap_px'' \<and>
   \<not> replot_checked
     (clicked_include ''cmap_px'' True
        (clicked_include ''cmap_px'' False
           (boxes_all_checked\<lparr>replot_checked := (replot_checked boxes_all_checked)
              (''cmap_px'' := False)\<rparr>))) ''cmap_px''"
  using include_round_trip [of "''cmap_px''"
      "boxes_all_checked\<lparr>replot_checked := (replot_checked boxes_all_checked)
         (''cmap_px'' := False)\<rparr>"]
  by (simp add: boxes_all_checked_def)

section \<open>The remote options of the map dialog\<close>

lemma py_then_Inr:
  "py_then r f = Inr y \<longleftrightarrow> (\<exists>x. r = Inr x \<and> f x = Inr y)"
  by (cases r) (simp_all add: py_then_def)

lemma update_opt_dict_result:
  assumes "DialogCalcOptMap_update_opt_dict dlg od = Inr (name, od')"
  shows "name = lineEdit_opt_set_name dlg \<and>
         (\<exists>od1. od' =
            (if groupBox_remote_opts dlg
             then AList.update ''remote_opts'' (PDict (build_remote_opts dlg)) od1
             else if ''remote_opts'' \<in> set (dict_keys od1)
                  then AList.delete ''remote_opts'' od1
                  else od1))"
  using assms unfolding DialogCalcOptMap_update_opt_dict_def py_then_Inr
  by blast

lemma stored_remote_opts:
  assumes "DialogCalcOptMap_update_opt_dict dlg od = Inr (name, od')"
    and "groupBox_remote_opts dlg"
  shows "map_of od' ''remote_opts'' = Some (PDict (build_remote_opts dlg))"
proof -
  obtain od1 where "od' = AList.update ''remote_opts'' (PDict (build_remote_opts dlg)) od1"
    using update_opt_dict_result [OF assms(1)] assms(2) by auto
  then show ?thesis by (simp add: update_conv')
qed

lemma remote_opts_time:
  "map_of (build_remote_opts dlg) ''time'' =
     (if checkBox_time dlg \<and> py_strip (lineEdit_time dlg) \<noteq> []
      then Some (PStr (py_strip (lineEdit_time dlg))) else None)"
  by (simp add: build_remote_opts_def py_bool_of_str_def update_conv' Let_def)

lemma remote_opts_diag_mode:
  "map_of (build_remote_opts dlg) ''diag_mode'' =
     (if checkBox_diag_mode dlg
      then Some (PBool (comboBox_diag_mode dlg \<noteq> [])) else None)"
  by (simp add: build_remote_opts_def py_bool_of_str_def update_conv' Let_def)

lemma update_opt_dict_ignores_time:
  "DialogCalcOptMap_update_opt_dict (dlg\<lparr>checkBox_time := b, lineEdit_time := t\<rparr>) od = Inl e
     \<longleftrightarrow> DialogCalcOptMap_update_opt_dict dlg od = Inl e"
  by (simp add: DialogCalcOptMap_update_opt_dict_def py_then_def set_float_def
      split: sum.splits option.splits)

lemmas dialog_defs =
  DialogCalcOptMap_update_opt_dict_def py_then_def set_float_def build_remote_opts_def
  py_bool_of_str_def py_strip_def py_isspace_def dict_keys_def Let_def sample_dialog_def
  fmap_xy_production_def

lemma sample_dialog_accepted:
  "\<exists>od'. DialogCalcOptMap_update_opt_dict sample_dialog fmap_xy_production =
          Inr (''production'', od')"
  by (simp add: dialog_defs)

text \<open>
  Claim C8, as amended. When the dialog is accepted with remote options switched on, the
  stored remote options have no \<^verbatim>\<open>time\<close> when the time field is disabled or its text is
  blank, and hold the stripped text under \<^verbatim>\<open>time\<close> otherwise, whatever the text is:
  its format is not checked. Whether \<^verbatim>\<open>update_opt_dict\<close> raises an exception does not
  depend on the time field.
\<close>

theorem time_stored_without_check:
  "(\<forall>name od'.
      DialogCalcOptMap_update_opt_dict dlg od = Inr (name, od') \<and> groupBox_remote_opts dlg \<longrightarrow>
      (\<exists>r. map_of od' ''remote_opts'' = Some (PDict r) \<and>
           map_of r ''time'' =
             (if checkBox_time dlg \<and> py_strip (lineEdit_time dlg) \<noteq> []
              then Some (PStr (py_strip (lineEdit_time dlg))) else None))) \<and>
   (\<forall>b t e.
      DialogCalcOptMap_update_opt_dict (dlg\<lparr>checkBox_time := b, lineEdit_time := t\<rparr>) od = Inl e
      \<longleftrightarrow> DialogCalcOptMap_update_opt_dict dlg od = Inl e)"
proof (intro conjI allI impI)
  fix name od'
  assume "DialogCalcOptMap_update_opt_dict dlg od = Inr (name, od') \<and> groupBox_remote_opts dlg"
  then have "map_of od' ''remote_opts'' = Some (PDict (build_remote_opts dlg))"
    using stored_remote_opts by blast
  then show "\<exists>r. map_of od' ''remote_opts'' = Some (PDict r) \<and>
           map_of r ''time'' =
             (if checkBox_time dlg \<and> py_strip (lineEdit_time dlg) \<noteq> []
              then Some (PStr (py_strip (lineEdit_time dlg))) else None)"
    using remote_opts_time by blast
next
  fix b t e
  show "DialogCalcOptMap_update_opt_dict (dlg\<lparr>checkBox_time := b, lineEdit_time := t\<rparr>) od = Inl e
      \<longleftrightarrow> DialogCalcOptMap_update_opt_dict dlg od = Inl e"
    by (rule update_opt_dict_ignores_time)
qed

text \<open>
  The amended claim at the sample dialog, opened on the production set of \<^verbatim>\<open>fmap_xy\<close>:
  the time \<^verbatim>\<open>30:00\<close> is stored.
\<close>

theorem time_stored_without_check_witness:
  "\<exists>od' r. DialogCalcOptMap_update_opt_dict sample_dialog fmap_xy_production =
            Inr (''production'', od') \<and>
          map_of od' ''remote_opts'' = Some (PDict r) \<and>
          map_of r ''time'' = Some (PStr ''30:00'')"
proof -
  obtain od' where ok: "DialogCalcOptMap_update_opt_dict sample_dialog fmap_xy_production =
      Inr (''production'', od')"
    using sample_dialog_accepted by blast
  have on: "groupBox_remote_opts sample_dialog"
    by (simp add: sample_dialog_def)
  have stripped: "checkBox_time sample_dialog \<and>
      py_strip (lineEdit_time sample_dialog) = ''30:00''"
    by (simp add: sample_dialog_def py_strip_def py_isspace_def)
  obtain r where "map_of od' ''remote_opts'' = Some (PDict r)"
    "map_of r ''time'' =
       (if checkBox_time sample_dialog \<and> py_strip (lineEdit_time sample_dialog) \<noteq> []
        then Some (PStr (py_strip (lineEdit_time sample_dialog))) else None)"
    using time_stored_without_check [of sample_dialog fmap_xy_production] ok on by blast
  with stripped ok show ?thesis by auto
qed

text \<open>
  The claim as stated fails: with the text \<^verbatim>\<open>abc\<close> in the time field, which is not of
  the form \<open>HH:MM\<close>, the dialog is accepted without an exception and \<^verbatim>\<open>abc\<close> is stored
  as the time.
\<close>

theorem malformed_time_is_stored:
  "\<not> spec_wallTime_HH_MM ''abc'' \<and>
   DialogCalcOptMap_update_opt_dict (sample_dialog\<lparr>lineEdit_time := ''abc''\<rparr>)
     fmap_xy_production =
     Inr (''production'',
          AList.update ''remote_opts''
            (PDict [(''time'', PStr ''abc''), (''diag_mode'', PBool True)])
            fmap_xy_production)"
  by (simp add: dialog_defs spec_wallTime_HH_MM_def)

text \<open>
  Claim C10. When the dialog is accepted with remote options switched on and the
  diagnostic mode field enabled, the stored \<^verbatim>\<open>diag_mode\<close> is whether the text of the
  selector is not empty: \<^verbatim>\<open>True\<close> for every text but the empty one, the text
  \<^verbatim>\<open>False\<close> included, and \<^verbatim>\<open>False\<close> for the empty text only.
\<close>

theorem diag_mode_is_text_nonempty:
  assumes "DialogCalcOptMap_update_opt_dict dlg od = Inr (name, od')"
    and "groupBox_remote_opts dlg" and "checkBox_diag_mode dlg"
  shows "\<exists>r. map_of od' ''remote_opts'' = Some (PDict r) \<and>
           map_of r ''diag_mode'' = Some (PBool (comboBox_diag_mode dlg \<noteq> []))"
  using stored_remote_opts [OF assms(1,2)] remote_opts_diag_mode [of dlg] assms(3)
  by simp

text \<open>
  Claim C10 at the sample dialog, whose selector shows \<^verbatim>\<open>False\<close>: the stored
  \<^verbatim>\<open>diag_mode\<close> is \<^verbatim>\<open>True\<close>.
\<close>

theorem diag_mode_is_text_nonempty_witness:
  "comboBox_diag_mode sample_dialog = ''False'' \<and>
   (\<exists>od' r. DialogCalcOptMap_update_opt_dict sample_dialog fmap_xy_production =
             Inr (''production'', od') \<and>
           map_of od' ''remote_opts'' = Some (PDict r) \<and>
           map_of r ''diag_mode'' = Some (PBool True))"
proof -
  obtain od' where ok: "DialogCalcOptMap_update_opt_dict sample_dialog fmap_xy_production =
      Inr (''production'', od')"
    using sample_dialog_accepted by blast
  have on: "groupBox_remote_opts sample_dialog" "checkBox_diag_mode sample_dialog"
    and shown: "comboBox_diag_mode sample_dialog = ''False''"
    by (simp_all add: sample_dialog_def)
  obtain r where "map_of od' ''remote_opts'' = Some (PDict r)"
    "map_of r ''diag_mode'' = Some (PBool (comboBox_diag_mode sample_dialog \<noteq> []))"
    using diag_mode_is_text_nonempty [OF ok on] by blast
  with shown ok show ?thesis by auto
qed

end
